theory Spec2Isabelle
  imports Main
begin

section \<open>JavaScript values and string primitives\<close>

text \<open>
  A thrown JavaScript value is either an \<open>Error\<close> object carrying a message or some
  other value.  The handlers of the source all read a caught value through
  \<open>err instanceof Error ? err.message : fallback\<close>.
\<close>

datatype thrown = Error (message: string) | NonError

definition err_message :: "thrown \<Rightarrow> string \<Rightarrow> string" where
  "err_message e fallback = (case e of Error m \<Rightarrow> m | NonError \<Rightarrow> fallback)"

text \<open>The double quote character, which occurs in two user-facing messages.\<close>

definition dq :: string where
  "dq = [CHR 0x22]"

text \<open>
  \<open>String.prototype.trim\<close>, \<open>toLowerCase\<close> and \<open>includes\<close> (here
  \<open>str_includes\<close>), on strings of single-byte characters (code points 0 to 255).  The
  white space that \<open>trim\<close> strips is, in that range, tab, line feed, vertical tab, form
  feed, carriage return, space and the no-break space U+00A0; only the letters \<open>A\<close> to
  \<open>Z\<close> are given a lower-case form.
\<close>

definition is_space :: "char \<Rightarrow> bool" where
  "is_space c =
     (c \<in> set [CHR '' '', CHR 0x09, CHR 0x0A, CHR 0x0B, CHR 0x0C, CHR 0x0D, CHR 0xA0])"

definition trim :: "string \<Rightarrow> string" where
  "trim s = rev (dropWhile is_space (rev (dropWhile is_space s)))"

definition lower_char :: "char \<Rightarrow> char" where
  "lower_char c =
     (case map_of (zip ''ABCDEFGHIJKLMNOPQRSTUVWXYZ'' ''abcdefghijklmnopqrstuvwxyz'') c of
        Some d \<Rightarrow> d
      | None \<Rightarrow> c)"

definition toLowerCase :: "string \<Rightarrow> string" where
  "toLowerCase s = map lower_char s"

fun str_includes :: "string \<Rightarrow> string \<Rightarrow> bool" where
  "str_includes [] p = (p = [])"
| "str_includes (c # cs) p = (take (length p) (c # cs) = p \<or> str_includes cs p)"

text \<open>
  \<open>Number.prototype.toString\<close> on an integer value (the result of \<open>Date.now()\<close>):
  the decimal digits, with a leading minus sign below zero.
\<close>

definition digit_char :: "nat \<Rightarrow> char" where
  "digit_char d = ''0123456789'' ! d"

fun digits :: "nat \<Rightarrow> string" where
  "digits n = (if n < 10 then [digit_char n] else digits (n div 10) @ [digit_char (n mod 10)])"

declare digits.simps [simp del]

definition toString :: "int \<Rightarrow> string" where
  "toString i = (if i < 0 then CHR ''-'' # digits (nat (- i)) else digits (nat i))"

section \<open>Environment: configuration, platform and remote services\<close>

text \<open>
  A \<open>Blob\<close> is its bytes and its MIME type; \<open>new Blob(parts, {type})\<close> concatenates
  the parts.
\<close>

datatype blob = Blob (blob_bytes: "nat list") (blob_type: string)

definition blob_size :: "blob \<Rightarrow> nat" where
  "blob_size b = length (blob_bytes b)"

definition new_Blob :: "blob list \<Rightarrow> string \<Rightarrow> blob" where
  "new_Blob parts ty = Blob (concat (map blob_bytes parts)) ty"

text \<open>What a \<open>FileReader\<close> reports for \<open>readAsDataURL\<close>: an error event, or the end of
  loading with a result that may be null.\<close>

datatype reader_outcome = ReaderError | LoadEnd "string option"

text \<open>One stored meeting (\<open>interface MeetingSummary\<close>).\<close>

record MeetingSummary =
  ms_id :: string
  ms_date :: string
  ms_duration :: int
  ms_summary :: string
  ms_transcript :: string

text \<open>
  Everything a handler reads from outside the component during one invocation.  The three
  remote clients are opaque: a call either throws (\<open>Inl\<close>) or returns (\<open>Inr\<close>).  The
  speech recognition response is \<open>None\<close> when it is missing or its \<open>text\<close> is not a
  string.  \<open>getUserMedia\<close>, \<open>recorder_pause\<close>, \<open>recorder_resume\<close> and
  \<open>recorder_stop\<close> hold the value thrown by the platform call, if it throws.  \<open>Date_now\<close> is the clock (milliseconds) read by the invocation.
\<close>

record env =
  VITE_HUGGINGFACE_API_KEY :: "string option"
  VITE_GOOGLE_CLOUD_API_KEY :: "string option"
  VITE_GEMINI_API_KEY :: "string option"
  mediaDevices_available :: bool
  getUserMedia :: "thrown option"
  isTypeSupported :: "string \<Rightarrow> bool"
  recorder_pause :: "thrown option"
  recorder_resume :: "thrown option"
  recorder_stop :: "thrown option"
  readAsDataURL :: "blob \<Rightarrow> reader_outcome"
  automaticSpeechRecognition :: "string \<Rightarrow> thrown + string option"
  transcribeWithGoogleSpeech :: "blob \<Rightarrow> thrown + string"
  summarizeMeeting :: "string \<Rightarrow> thrown + string"
  Date_now :: int
  Date_toISOString :: string
  JSON_stringify :: "MeetingSummary list \<Rightarrow> string"
  JSON_parse :: "string \<Rightarrow> thrown + MeetingSummary list"
  createObjectURL :: "blob \<Rightarrow> string"

text \<open>Truthiness of an environment variable: defined and not the empty string.\<close>

definition truthy :: "string option \<Rightarrow> bool" where
  "truthy k = (case k of None \<Rightarrow> False | Some v \<Rightarrow> v \<noteq> [])"

section \<open>The Hugging Face transcription client\<close>

text \<open>\<open>blobToBase64\<close>: the part of the data URL after the first comma.\<close>

definition second_field :: "string \<Rightarrow> string option" where
  "second_field s =
     (case dropWhile (\<lambda>c. c \<noteq> CHR '','') s of
        [] \<Rightarrow> None
      | _ # r \<Rightarrow> Some (takeWhile (\<lambda>c. c \<noteq> CHR '','') r))"

definition blobToBase64 :: "env \<Rightarrow> blob \<Rightarrow> thrown + string" where
  "blobToBase64 e b =
     (case readAsDataURL e b of
        ReaderError \<Rightarrow> Inl (Error ''Error reading audio file'')
      | LoadEnd None \<Rightarrow> Inl (Error ''Failed to read audio file'')
      | LoadEnd (Some base64String) \<Rightarrow>
          if base64String = [] then Inl (Error ''Failed to read audio file'')
          else (case second_field base64String of
                  None \<Rightarrow> Inl (Error ''Failed to extract base64 data from audio file'')
                | Some base64Data \<Rightarrow>
                    if base64Data = []
                    then Inl (Error ''Failed to extract base64 data from audio file'')
                    else Inr base64Data))"

definition getHfClient :: "env \<Rightarrow> thrown + unit" where
  "getHfClient e =
     (if \<not> truthy (VITE_HUGGINGFACE_API_KEY e)
      then Inl (Error ''Hugging Face API key is not set. Please add your API key to the .env file.'')
      else Inr ())"

definition no_speech_message :: string where
  "no_speech_message = ''No speech detected in the recording. Please try again with clearer audio.''"

text \<open>The body of the \<open>try\<close> block of \<open>transcribeAudio\<close>.\<close>

definition transcribeAudio_try :: "env \<Rightarrow> blob \<Rightarrow> thrown + string" where
  "transcribeAudio_try e audioBlob =
     (if blob_size audioBlob = 0
      then Inl (Error ''No audio data was recorded. Please try again.'')
      else if blob_size audioBlob < 1000
      then Inl (Error ''Audio recording is too short. Please record for a longer duration.'')
      else (case blobToBase64 e audioBlob of
              Inl err \<Rightarrow> Inl err
            | Inr base64Audio \<Rightarrow>
               (case getHfClient e of
                  Inl err \<Rightarrow> Inl err
                | Inr hf \<Rightarrow>
                   (case automaticSpeechRecognition e base64Audio of
                      Inl err \<Rightarrow> Inl err
                    | Inr None \<Rightarrow> Inl (Error ''Invalid response from Hugging Face API'')
                    | Inr (Some text) \<Rightarrow>
                        if trim text = [] then Inr no_speech_message else Inr text))))"

text \<open>
  The chain of recognised patterns of the \<open>catch\<close> block, in the order of the source:
  the first pattern found in the lower-cased message selects the error thrown instead.
\<close>

definition recognized :: "string \<Rightarrow> string option" where
  "recognized errorMessage =
     (if str_includes errorMessage ''api key'' \<or> str_includes errorMessage ''apikey''
      then Some ''Missing or invalid Hugging Face API key. Please check your .env file.''
      else if str_includes errorMessage ''429'' \<or> str_includes errorMessage ''too many requests''
      then Some ''Too many requests to Hugging Face API. Please try again later.''
      else if str_includes errorMessage ''413'' \<or> str_includes errorMessage ''too large''
      then Some ''Audio file is too large. Please record a shorter audio clip (maximum 30 seconds recommended).''
      else if str_includes errorMessage ''400'' \<or> str_includes errorMessage ''invalid format''
      then Some ''Invalid audio format. The model may not support this audio format.''
      else if str_includes errorMessage ''404'' \<or> str_includes errorMessage ''not found''
      then Some ''Model not found. The specified model may not be available.''
      else if str_includes errorMessage ''401'' \<or> str_includes errorMessage ''unauthorized''
      then Some ''Unauthorized. Your Hugging Face API key may be invalid.''
      else if str_includes errorMessage ''network'' \<or> str_includes errorMessage ''connection''
      then Some ''Network error when connecting to Hugging Face API. Please check your internet connection.''
      else if str_includes errorMessage ''timeout''
      then Some ''Request to Hugging Face API timed out. The audio might be too long or the service is busy.''
      else None)"

definition transcribeAudio_catch :: "thrown \<Rightarrow> thrown + string" where
  "transcribeAudio_catch err =
     (case err of
        Error m \<Rightarrow>
          (case recognized (toLowerCase m) of
             Some replacement \<Rightarrow> Inl (Error replacement)
           | None \<Rightarrow> Inr (''Transcription failed: '' @ m))
      | NonError \<Rightarrow> Inr ''Failed to transcribe audio. Please try again with a different recording.'')"

definition transcribeAudio :: "env \<Rightarrow> blob \<Rightarrow> thrown + string" where
  "transcribeAudio e audioBlob =
     (case transcribeAudio_try e audioBlob of
        Inl err \<Rightarrow> transcribeAudio_catch err
      | Inr text \<Rightarrow> Inr text)"

section \<open>The recording lifecycle controller\<close>

datatype recorder_state = Inactive | Recording | Paused

record MediaRecorder =
  rec_state :: recorder_state
  mimeType :: string
  tracks_live :: bool

datatype SpeechService = Huggingface | Google

text \<open>The remote calls a handler issues, in order (a trace, not a variable of the source).\<close>

datatype call = TranscribeHF blob | TranscribeGoogle blob | Summarize string

text \<open>
  The \<open>useState\<close> values and the refs of \<open>MeetingSummarizer\<close>, with the browser's
  \<open>localStorage\<close> and the trace of remote calls.

  A handler of a function component is a closure of one render: it reads the state
  values of that render and writes through setters and refs.  So each handler below takes
  two controllers: \<open>snap\<close>, the render whose closure runs (read for \<open>duration\<close>,
  \<open>summaryHistory\<close>, \<open>speechService\<close>, \<open>apiStatus\<close>), and \<open>s\<close>, the current state,
  which it updates (refs, \<open>localStorage\<close> and the trace are read from \<open>s\<close>).
\<close>

record controller =
  isRecording :: bool
  isPaused :: bool
  transcript :: string
  loading :: bool
  transcribing :: bool
  summary :: "string option"
  error :: "string option"
  startTime :: "int option"
  duration :: int
  summaryHistory :: "MeetingSummary list"
  audioURL :: "string option"
  audioSupported :: bool
  apiStatus_gemini :: bool
  apiStatus_huggingface :: bool
  apiStatus_googleSpeech :: bool
  speechService :: SpeechService
  mediaRecorderRef :: "MediaRecorder option"
  audioChunksRef :: "blob list"
  localStorage :: "string \<rightharpoonup> string"
  calls :: "call list"

definition maxRecordingDuration :: int where
  "maxRecordingDuration = 1000"

definition history_key :: string where
  "history_key = ''meetingSummaryHistory''"

text \<open>The state of the first render, over a given \<open>localStorage\<close>.\<close>

definition initial_controller :: "(string \<rightharpoonup> string) \<Rightarrow> controller" where
  "initial_controller store =
     \<lparr>isRecording = False, isPaused = False, transcript = [], loading = False,
      transcribing = False, summary = None, error = None, startTime = None, duration = 0,
      summaryHistory = [], audioURL = None, audioSupported = True, apiStatus_gemini = True,
      apiStatus_huggingface = True, apiStatus_googleSpeech = False,
      speechService = Huggingface, mediaRecorderRef = None, audioChunksRef = [],
      localStorage = store, calls = []\<rparr>"

text \<open>
  The mount effect that loads the history: \<open>if (history)\<close> skips a missing entry and the
  empty string; \<open>JSON.parse\<close> may throw, and nothing catches it.
\<close>

definition load_history :: "env \<Rightarrow> controller \<Rightarrow> thrown + controller" where
  "load_history e s =
     (case localStorage s history_key of
        None \<Rightarrow> Inr s
      | Some history \<Rightarrow>
          if history = [] then Inr s
          else (case JSON_parse e history of
                  Inl err \<Rightarrow> Inl err
                | Inr parsed \<Rightarrow> Inr (s\<lparr>summaryHistory := parsed\<rparr>)))"

text \<open>\<open>mediaRecorder.mimeType || 'audio/webm'\<close>\<close>

definition mime_or_webm :: "string \<Rightarrow> string" where
  "mime_or_webm m = (if m = [] then ''audio/webm'' else m)"

text \<open>The recorder's \<open>ondataavailable\<close> and \<open>onstop\<close> handlers, installed by \<open>startRecording\<close>.\<close>

definition ondataavailable :: "blob \<Rightarrow> controller \<Rightarrow> controller" where
  "ondataavailable data s =
     (if blob_size data > 0 then s\<lparr>audioChunksRef := audioChunksRef s @ [data]\<rparr> else s)"

definition onstop :: "env \<Rightarrow> string \<Rightarrow> controller \<Rightarrow> controller" where
  "onstop e recorderMime s =
     (if audioChunksRef s = []
      then s\<lparr>error := Some ''No audio data was recorded. Please try again.''\<rparr>
      else let audioBlob = new_Blob (audioChunksRef s) (mime_or_webm recorderMime) in
           if blob_size audioBlob < 1000
           then s\<lparr>error := Some ''Audio recording is too short or empty. Please try again.''\<rparr>
           else s\<lparr>audioURL := Some (createObjectURL e audioBlob)\<rparr>)"

definition pauseRecording :: "env \<Rightarrow> controller \<Rightarrow> controller" where
  "pauseRecording e s =
     (case mediaRecorderRef s of
        None \<Rightarrow> s
      | Some mr \<Rightarrow>
          if rec_state mr = Recording
          then (case recorder_pause e of
                  Some err \<Rightarrow> s\<lparr>error := Some (err_message err ''Failed to pause recording'')\<rparr>
                | None \<Rightarrow>
                    s\<lparr>mediaRecorderRef := Some (mr\<lparr>rec_state := Paused\<rparr>), isPaused := True\<rparr>)
          else s)"

definition resumeRecording :: "env \<Rightarrow> controller \<Rightarrow> controller" where
  "resumeRecording e s =
     (case mediaRecorderRef s of
        None \<Rightarrow> s
      | Some mr \<Rightarrow>
          if rec_state mr = Paused
          then (case recorder_resume e of
                  Some err \<Rightarrow> s\<lparr>error := Some (err_message err ''Failed to resume recording'')\<rparr>
                | None \<Rightarrow>
                    s\<lparr>mediaRecorderRef := Some (mr\<lparr>rec_state := Recording\<rparr>),
                      isPaused := False\<rparr>)
          else s)"

subsection \<open>\<open>stopRecording\<close>\<close>

definition too_short_message :: string where
  "too_short_message =
     ''Audio recording is too short or empty. Please try again or use the '' @ dq @
     ''Test with Sample Text'' @ dq @ '' option.''"

definition no_audio_message :: string where
  "no_audio_message =
     ''No audio data was recorded. Please try again or use the '' @ dq @
     ''Test with Sample Text'' @ dq @ '' option.''"

definition no_transcription_message :: string where
  "no_transcription_message =
     ''No transcription was returned. The audio might be too quiet or in an unsupported language.''"

text \<open>The record built after a successful summarization, in both handlers that build one.\<close>

definition newSummary :: "env \<Rightarrow> int \<Rightarrow> string \<Rightarrow> string \<Rightarrow> MeetingSummary" where
  "newSummary e dur meetingSummary text =
     \<lparr>ms_id = toString (Date_now e), ms_date = Date_toISOString e, ms_duration = dur,
      ms_summary = meetingSummary, ms_transcript = text\<rparr>"

text \<open>The inner \<open>try\<close>/\<open>catch\<close>: summarize, then record and persist.\<close>

definition generate_summary :: "env \<Rightarrow> controller \<Rightarrow> int \<Rightarrow> string \<Rightarrow> controller \<Rightarrow> controller" where
  "generate_summary e snap dur text s =
     (let s1 = s\<lparr>calls := calls s @ [Summarize text]\<rparr> in
      case summarizeMeeting e text of
        Inl summaryError \<Rightarrow>
          s1\<lparr>error := Some (err_message summaryError ''Failed to generate summary'')\<rparr>
      | Inr meetingSummary \<Rightarrow>
          let updatedHistory = newSummary e dur meetingSummary text # summaryHistory snap in
          s1\<lparr>summary := Some meetingSummary,
             summaryHistory := updatedHistory,
             localStorage := (localStorage s1)(history_key \<mapsto> JSON_stringify e updatedHistory)\<rparr>)"

text \<open>
  The call of the selected transcription client, behind the check of its key: what the
  \<open>await\<close> yields, and the remote calls made for it (none when the key is missing).
\<close>

definition transcribe_selected ::
  "env \<Rightarrow> SpeechService \<Rightarrow> blob \<Rightarrow> (thrown + string) \<times> call list" where
  "transcribe_selected e service audioBlob =
     (case service of
        Huggingface \<Rightarrow>
          if \<not> truthy (VITE_HUGGINGFACE_API_KEY e)
          then (Inl (Error ''Hugging Face API key is not set. Please add your API key to the .env file or switch to Google Cloud Speech.''), [])
          else (transcribeAudio e audioBlob, [TranscribeHF audioBlob])
      | Google \<Rightarrow>
          if \<not> truthy (VITE_GOOGLE_CLOUD_API_KEY e)
          then (Inl (Error ''Google Cloud API key is not set. Please add your API key to the .env file or switch to Hugging Face.''), [])
          else (transcribeWithGoogleSpeech e audioBlob, [TranscribeGoogle audioBlob]))"

text \<open>
  The body of the outer \<open>try\<close>: the value thrown out of it, if any, with the state
  reached at that point.
\<close>

definition process_audio ::
  "env \<Rightarrow> controller \<Rightarrow> string \<Rightarrow> controller \<Rightarrow> thrown option \<times> controller" where
  "process_audio e snap recorderMime s =
     (let audioBlob = new_Blob (audioChunksRef s) (mime_or_webm recorderMime) in
      if blob_size audioBlob < 1000 then (Some (Error too_short_message), s)
      else (case transcribe_selected e (speechService snap) audioBlob of
              (result, issued) \<Rightarrow>
                let s1 = s\<lparr>calls := calls s @ issued\<rparr> in
                (case result of
                   Inl err \<Rightarrow> (Some err, s1)
                 | Inr transcribedText \<Rightarrow>
                     if transcribedText = [] \<or> trim transcribedText = []
                     then (Some (Error no_transcription_message), s1)
                     else let s2 = s1\<lparr>transcript := transcribedText\<rparr> in
                          if \<not> truthy (VITE_GEMINI_API_KEY e)
                          then (Some (Error ''Google Gemini API key is not set. Please add your API key to the .env file.''), s2)
                          else (None, generate_summary e snap (duration snap) transcribedText
                                        (s2\<lparr>loading := True\<rparr>)))))"

definition stopRecording :: "env \<Rightarrow> controller \<Rightarrow> controller \<Rightarrow> controller" where
  "stopRecording e snap s =
     (case mediaRecorderRef s of
        None \<Rightarrow> s
      | Some mr \<Rightarrow>
          if rec_state mr = Inactive then s
          else (case recorder_stop e of
                  Some err \<Rightarrow>
                    s\<lparr>error := Some (err_message err ''Failed to stop recording''),
                      isRecording := False, isPaused := False\<rparr>
                | None \<Rightarrow>
                    let s1 = s\<lparr>mediaRecorderRef :=
                                  Some (mr\<lparr>rec_state := Inactive, tracks_live := False\<rparr>),
                                isRecording := False, isPaused := False\<rparr> in
                    if audioChunksRef s1 \<noteq> []
                    then (case process_audio e snap (mimeType mr)
                                 (s1\<lparr>transcribing := True, error := None\<rparr>) of
                            (None, s2) \<Rightarrow> s2\<lparr>transcribing := False, loading := False\<rparr>
                          | (Some err, s2) \<Rightarrow>
                              s2\<lparr>error := Some (err_message err ''Failed to process audio''),
                                 transcribing := False, loading := False\<rparr>)
                    else s1\<lparr>error := Some no_audio_message\<rparr>))"

text \<open>The Stop button and sign-out run the handler of the current render.\<close>

definition stop :: "env \<Rightarrow> controller \<Rightarrow> controller" where
  "stop e s = stopRecording e s s"

text \<open>
  The cleanup of the mount effect (dependencies \<open>[]\<close>) also calls \<open>stopRecording\<close>.  It
  is a closure of the first render, in which every \<open>useState\<close> value is the initial one
  (of \<open>snap\<close> only such values are read, so the storage given to it here is immaterial).
\<close>

definition first_render :: controller where
  "first_render = initial_controller Map.empty"

definition unmount_cleanup :: "env \<Rightarrow> controller \<Rightarrow> controller" where
  "unmount_cleanup e s = stopRecording e first_render s"

subsection \<open>\<open>startRecording\<close>, the sample-text handler and the duration watchdog\<close>

definition choose_mimeType :: "env \<Rightarrow> string" where
  "choose_mimeType e =
     (if isTypeSupported e ''audio/webm'' then ''audio/webm''
      else if isTypeSupported e ''audio/mp4'' then ''audio/mp4''
      else if isTypeSupported e ''audio/ogg'' then ''audio/ogg''
      else [])"

definition start_failed :: "thrown \<Rightarrow> controller \<Rightarrow> controller" where
  "start_failed err s =
     s\<lparr>error := Some (err_message err ''Failed to start recording''), audioSupported := False\<rparr>"

definition startRecording :: "env \<Rightarrow> controller \<Rightarrow> controller \<Rightarrow> controller" where
  "startRecording e snap s =
     (let s0 = s\<lparr>error := None\<rparr> in
      if speechService snap = Huggingface \<and> \<not> apiStatus_huggingface snap
      then start_failed (Error ''Hugging Face API key is missing. Please check your .env file or switch to Google Cloud Speech.'') s0
      else if speechService snap = Google \<and> \<not> apiStatus_googleSpeech snap
      then start_failed (Error ''Google Cloud API key is missing. Please check your .env file or switch to Hugging Face.'') s0
      else if \<not> apiStatus_gemini snap
      then start_failed (Error ''Google Gemini API key is missing. Please check your .env file.'') s0
      else if \<not> mediaDevices_available e
      then start_failed (Error ''Audio recording is not supported in this browser. Try using Chrome or Firefox.'') s0
      else (case getUserMedia e of
              Some err \<Rightarrow> start_failed err s0
            | None \<Rightarrow>
                s0\<lparr>audioChunksRef := [],
                   mediaRecorderRef :=
                     Some \<lparr>rec_state = Recording, mimeType = choose_mimeType e, tracks_live = True\<rparr>,
                   isRecording := True,
                   startTime := Some (Date_now e)\<rparr>))"

definition sampleText :: string where
  "sampleText =
     ''This is a test meeting transcript. We discussed the project timeline and agreed to complete the first phase by next Friday. John will handle the design work, and Sarah will take care of the backend implementation. We also decided to use React for the frontend and Node.js for the backend. The team will meet again next Monday to review progress.''"

definition testWithSampleText :: "env \<Rightarrow> controller \<Rightarrow> controller \<Rightarrow> controller" where
  "testWithSampleText e snap s =
     (let s0 = s\<lparr>transcribing := True, error := None\<rparr>;
          s1 = (if \<not> apiStatus_gemini snap
                then s0\<lparr>error := Some ''Google Gemini API key is missing. Please check your .env file.''\<rparr>
                else generate_summary e snap 300 sampleText
                       (s0\<lparr>transcript := sampleText, loading := True\<rparr>))
      in s1\<lparr>transcribing := False, loading := False\<rparr>)"

text \<open>
  The effect with dependencies \<open>[startTime, isPaused]\<close> installs the interval only when
  \<open>startTime && !isPaused\<close> holds in the render \<open>snap\<close> it runs after, and the interval's
  callback is a closure of that render: it calls that render's \<open>stopRecording\<close>.  The
  callback runs at clock \<open>now\<close>.
\<close>

definition watchdog_installed :: "controller \<Rightarrow> bool" where
  "watchdog_installed snap = (startTime snap \<noteq> None \<and> \<not> isPaused snap)"

definition watchdog_tick :: "env \<Rightarrow> controller \<Rightarrow> int \<Rightarrow> controller \<Rightarrow> controller" where
  "watchdog_tick e snap now s =
     (case startTime snap of
        None \<Rightarrow> s
      | Some started \<Rightarrow>
          if isPaused snap then s
          else let diff = (now - started) div 1000;
                   s1 = s\<lparr>duration := diff\<rparr> in
               if diff \<ge> maxRecordingDuration then stopRecording e snap s1 else s1)"

subsection \<open>The earlier variant of the component, without a transcription client\<close>

text \<open>
  The second copy of \<open>MeetingSummarizer\<close> in the repository fills \<open>transcript\<close> from the
  browser's speech recognition while recording; its \<open>stopRecording\<close> has no early return.
  \<open>l_recognitionRef\<close> is \<open>None\<close> for a null ref, otherwise whether the recognizer listens.
\<close>

record legacy_controller =
  l_isRecording :: bool
  l_isPaused :: bool
  l_transcript :: string
  l_loading :: bool
  l_summary :: "string option"
  l_error :: "string option"
  l_startTime :: "int option"
  l_duration :: int
  l_summaryHistory :: "MeetingSummary list"
  l_recognitionRef :: "bool option"
  l_mediaRecorderRef :: "MediaRecorder option"
  l_localStorage :: "string \<rightharpoonup> string"
  l_calls :: "call list"

definition legacy_stopRecording ::
  "env \<Rightarrow> legacy_controller \<Rightarrow> legacy_controller \<Rightarrow> legacy_controller" where
  "legacy_stopRecording e snap s =
     (let s1 = (case l_recognitionRef s of
                  None \<Rightarrow> s
                | Some listening \<Rightarrow> s\<lparr>l_recognitionRef := Some False\<rparr>);
          s2 = (case l_mediaRecorderRef s1 of
                  None \<Rightarrow> s1
                | Some mr \<Rightarrow>
                    if rec_state mr \<noteq> Inactive
                    then s1\<lparr>l_mediaRecorderRef :=
                               Some (mr\<lparr>rec_state := Inactive, tracks_live := False\<rparr>)\<rparr>
                    else s1);
          s3 = s2\<lparr>l_isRecording := False, l_isPaused := False, l_startTime := None\<rparr>
      in if trim (l_transcript snap) \<noteq> []
         then (let s4 = s3\<lparr>l_loading := True,
                           l_calls := l_calls s3 @ [Summarize (l_transcript snap)]\<rparr>;
                   s5 = (case summarizeMeeting e (l_transcript snap) of
                           Inl err \<Rightarrow>
                             s4\<lparr>l_error := Some (err_message err ''Failed to generate summary'')\<rparr>
                         | Inr meetingSummary \<Rightarrow>
                             let updatedHistory =
                                   newSummary e (l_duration snap) meetingSummary (l_transcript snap)
                                   # l_summaryHistory snap
                             in s4\<lparr>l_summary := Some meetingSummary,
                                   l_summaryHistory := updatedHistory,
                                   l_localStorage := (l_localStorage s4)
                                     (history_key \<mapsto> JSON_stringify e updatedHistory)\<rparr>)
               in s5\<lparr>l_loading := False\<rparr>)
         else s3)"

section \<open>Concrete sessions\<close>

text \<open>
  The scenario used to instantiate the theorems below: keys for Hugging Face and Gemini, a
  recorder that accepts \<open>audio/webm\<close>, a provider that hears \<open>hello world\<close>, and a recording
  of three chunks stopped after twelve seconds.
\<close>

definition example_env :: env where
  "example_env =
     \<lparr>VITE_HUGGINGFACE_API_KEY = Some ''hf_key'', VITE_GOOGLE_CLOUD_API_KEY = None,
      VITE_GEMINI_API_KEY = Some ''gemini_key'',
      mediaDevices_available = True, getUserMedia = None,
      isTypeSupported = (\<lambda>ty. ty = ''audio/webm''),
      recorder_pause = None, recorder_resume = None, recorder_stop = None,
      readAsDataURL = (\<lambda>b. LoadEnd (Some ''data:audio/webm;base64,QUJD'')),
      automaticSpeechRecognition = (\<lambda>a. Inr (Some ''hello world'')),
      transcribeWithGoogleSpeech = (\<lambda>b. Inr ''hello world''),
      summarizeMeeting = (\<lambda>t. Inr ''Team discussed hello world.''),
      Date_now = 12000, Date_toISOString = ''1970-01-01T00:00:12.000Z'',
      JSON_stringify = (\<lambda>h. concat (map ms_id h)),
      JSON_parse = (\<lambda>t. Inr []),
      createObjectURL = (\<lambda>b. ''blob:audio'')\<rparr>"

definition chunk :: "nat \<Rightarrow> blob" where
  "chunk n = Blob (replicate n 0) ''audio/webm''"

definition example_recording :: controller where
  "example_recording =
     (initial_controller Map.empty)
       \<lparr>isRecording := True, startTime := Some 0, duration := 12,
        mediaRecorderRef :=
          Some \<lparr>rec_state = Recording, mimeType = ''audio/webm'', tracks_live = True\<rparr>,
        audioChunksRef := [chunk 400, chunk 400, chunk 400]\<rparr>"

text \<open>Variations: a recording too short to process, and environments in which one call fails.\<close>

definition short_recording :: controller where
  "short_recording = example_recording\<lparr>audioChunksRef := [chunk 10]\<rparr>"

definition failing_summary_env :: env where
  "failing_summary_env = example_env\<lparr>summarizeMeeting := \<lambda>t. Inl (Error ''quota exceeded'')\<rparr>"

definition rate_limited_env :: env where
  "rate_limited_env =
     example_env\<lparr>automaticSpeechRecognition := \<lambda>a. Inl (Error ''429 Too Many Requests'')\<rparr>"

definition silent_env :: env where
  "silent_env = example_env\<lparr>automaticSpeechRecognition := \<lambda>a. Inr (Some ''  '')\<rparr>"

definition unreadable_env :: env where
  "unreadable_env = example_env\<lparr>readAsDataURL := \<lambda>b. LoadEnd None\<rparr>"

definition fetch_failed_env :: env where
  "fetch_failed_env =
     example_env\<lparr>automaticSpeechRecognition := \<lambda>a. Inl (Error ''Failed to fetch'')\<rparr>"

text \<open>The Google client selected, with its key set, returning an empty text.\<close>

definition google_silent_env :: env where
  "google_silent_env =
     example_env\<lparr>VITE_GOOGLE_CLOUD_API_KEY := Some ''google_key'',
                  transcribeWithGoogleSpeech := \<lambda>b. Inr []\<rparr>"

definition google_recording :: controller where
  "google_recording =
     example_recording\<lparr>apiStatus_googleSpeech := True, speechService := Google\<rparr>"

text \<open>The same recording in a component that has loaded one earlier record.\<close>

definition old_record :: MeetingSummary where
  "old_record =
     \<lparr>ms_id = ''5000'', ms_date = ''1970-01-01T00:00:05.000Z'', ms_duration = 3,
      ms_summary = ''Earlier meeting.'', ms_transcript = ''earlier''\<rparr>"

definition loaded_recording :: controller where
  "loaded_recording =
     example_recording\<lparr>summaryHistory := [old_record],
                        localStorage := [history_key \<mapsto> JSON_stringify example_env [old_record]]\<rparr>"

text \<open>
  A record made by the Stop handler and one made by the sample-text handler, both at the
  clock reading of \<open>example_env\<close>.
\<close>

definition two_in_one_ms :: controller where
  "two_in_one_ms =
     testWithSampleText example_env (stop example_env example_recording)
       (stop example_env example_recording)"

text \<open>
  A first session from a fresh mount: started at clock 0, three chunks delivered, never
  paused.  \<open>session_start\<close> is the render after \<open>startRecording\<close>, the one whose effect
  installs the watchdog; \<open>session_at_999\<close> is the state after the tick at 999 seconds.
\<close>

definition start_env :: env where
  "start_env = example_env\<lparr>Date_now := 0, Date_toISOString := ''1970-01-01T00:00:00.000Z''\<rparr>"

definition late_env :: env where
  "late_env =
     example_env\<lparr>Date_now := 1000250, Date_toISOString := ''1970-01-01T00:16:40.250Z''\<rparr>"

definition session_start :: controller where
  "session_start =
     startRecording start_env (initial_controller Map.empty) (initial_controller Map.empty)"

definition session_at_999 :: controller where
  "session_at_999 =
     watchdog_tick late_env session_start 999000
       (ondataavailable (chunk 400) (ondataavailable (chunk 400)
          (ondataavailable (chunk 400) session_start)))"

section \<open>Basic facts\<close>

lemmas client_defs =
  transcribe_selected_def transcribeAudio_def transcribeAudio_try_def transcribeAudio_catch_def
  blobToBase64_def second_field_def getHfClient_def truthy_def trim_def is_space_def
  blob_size_def err_message_def

lemmas run_defs =
  stop_def stopRecording_def process_audio_def generate_summary_def Let_def new_Blob_def
  mime_or_webm_def newSummary_def

lemma trim_Nil [simp]: "trim [] = []"
  by (simp add: trim_def)

lemma trim_nonblank: "\<not> is_space c \<Longrightarrow> trim (c # cs) \<noteq> []"
  by (simp add: trim_def)

lemma no_speech_message_nonblank: "no_speech_message \<noteq> [] \<and> trim no_speech_message \<noteq> []"
  by (simp add: no_speech_message_def trim_nonblank is_space_def)

lemma blob_size_new_Blob: "blob_size (new_Blob parts ty) = sum_list (map blob_size parts)"
  by (induction parts) (simp_all add: blob_size_def new_Blob_def)

lemma artifact_has_chunks: "1000 \<le> blob_size (new_Blob parts ty) \<Longrightarrow> parts \<noteq> []"
  by (auto simp: blob_size_def new_Blob_def)

lemma issued_no_summarize:
  "transcribe_selected e service audioBlob = (result, issued) \<Longrightarrow> Summarize text \<notin> set issued"
  by (auto simp: transcribe_selected_def split: SpeechService.splits if_splits)

lemma example_blob:
  "new_Blob (audioChunksRef example_recording) (mime_or_webm ''audio/webm'')
     = Blob (replicate 1200 0) ''audio/webm''"
  by (simp add: example_recording_def new_Blob_def chunk_def mime_or_webm_def
                replicate_add [symmetric])

lemma example_recorder:
  "mediaRecorderRef example_recording
     = Some \<lparr>rec_state = Recording, mimeType = ''audio/webm'', tracks_live = True\<rparr>"
  "speechService example_recording = Huggingface"
  "audioChunksRef example_recording = [chunk 400, chunk 400, chunk 400]"
  "summaryHistory example_recording = []"
  "duration example_recording = 12"
  "calls example_recording = []"
  by (simp_all add: example_recording_def initial_controller_def)

subsection \<open>Decimal rendering of the clock is injective\<close>

lemma digit_char_inj: "d < 10 \<Longrightarrow> d' < 10 \<Longrightarrow> digit_char d = digit_char d' \<Longrightarrow> d = d'"
  unfolding digit_char_def
  by (subst (asm) nth_eq_iff_index_eq) simp_all

lemma digit_char_not_minus: "d < 10 \<Longrightarrow> digit_char d \<noteq> CHR ''-''"
proof -
  assume "d < 10"
  then have "digit_char d \<in> set ''0123456789''"
    unfolding digit_char_def by (intro nth_mem) simp
  then show ?thesis by auto
qed

lemma digits_nonempty: "digits n \<noteq> []"
  by (subst digits.simps) simp

lemma hd_digits_not_minus: "hd (digits n) \<noteq> CHR ''-''"
proof (induction n rule: digits.induct)
  case (1 n)
  show ?case
  proof (cases "n < 10")
    case True
    then show ?thesis
      by (subst digits.simps) (simp add: digit_char_not_minus)
  next
    case False
    with 1 have "hd (digits (n div 10)) \<noteq> CHR ''-''" by simp
    with False show ?thesis
      by (subst digits.simps) (simp add: digits_nonempty)
  qed
qed

lemma digits_length_ge10: "\<not> n < 10 \<Longrightarrow> 2 \<le> length (digits n)"
  using digits_nonempty [of "n div 10"]
  by (subst digits.simps) (simp add: Suc_le_eq)

lemma digits_length_lt10: "n < 10 \<Longrightarrow> length (digits n) = 1"
  by (subst digits.simps) simp

lemma digits_inj: "digits n = digits m \<Longrightarrow> n = m"
proof (induction n arbitrary: m rule: digits.induct)
  case (1 n)
  show ?case
  proof (cases "n < 10")
    case True
    have "m < 10"
      using digits_length_ge10 [of m] digits_length_lt10 [OF True] "1.prems" by fastforce
    with True "1.prems" show ?thesis
      by (subst (asm) digits.simps, subst (asm) (2) digits.simps) (simp add: digit_char_inj)
  next
    case False
    have m: "\<not> m < 10"
      using digits_length_ge10 [OF False] digits_length_lt10 [of m] "1.prems" by fastforce
    have "digits (n div 10) @ [digit_char (n mod 10)]
            = digits (m div 10) @ [digit_char (m mod 10)]"
      using "1.prems" False m digits.simps [of n] digits.simps [of m] by simp
    then have "digits (n div 10) = digits (m div 10)"
              "digit_char (n mod 10) = digit_char (m mod 10)"
      by simp_all
    then have "n div 10 = m div 10" "n mod 10 = m mod 10"
      using "1.IH" [OF False] digit_char_inj [of "n mod 10" "m mod 10"] by simp_all
    then show ?thesis
      by (metis div_mult_mod_eq)
  qed
qed

lemma toString_inj: "toString i = toString j \<Longrightarrow> i = j"
proof -
  assume eq: "toString i = toString j"
  have neg_pos: False if "a < 0" "\<not> b < 0" "toString a = toString b" for a b
  proof -
    from that have "CHR ''-'' # digits (nat (- a)) = digits (nat b)"
      by (simp add: toString_def)
    then have "hd (digits (nat b)) = CHR ''-''"
      by (metis list.sel(1))
    then show False using hd_digits_not_minus by blast
  qed
  show "i = j"
  proof (cases "i < 0"; cases "j < 0")
    assume "i < 0" "j < 0"
    with eq have "nat (- i) = nat (- j)"
      by (simp add: toString_def digits_inj)
    with \<open>i < 0\<close> \<open>j < 0\<close> show ?thesis by simp
  next
    assume "i < 0" "\<not> j < 0"
    then show ?thesis using neg_pos eq by blast
  next
    assume "\<not> i < 0" "j < 0"
    then show ?thesis using neg_pos [of j i] eq by simp
  next
    assume "\<not> i < 0" "\<not> j < 0"
    with eq have "nat i = nat j"
      by (simp add: toString_def digits_inj)
    with \<open>\<not> i < 0\<close> \<open>\<not> j < 0\<close> show ?thesis by simp
  qed
qed

section \<open>History load at initialization\<close>

text \<open>
  Claim C7.  At initialization, when the persisted history entry is missing, is the empty
  string, or parses to the empty list, the load effect completes without throwing and
  leaves the controller in its initial state: the history is the empty sequence and the
  error slot is empty.
\<close>

theorem load_history_empty_or_missing:
  assumes "store history_key = None \<or> store history_key = Some [] \<or>
           (\<exists>h. store history_key = Some h \<and> JSON_parse e h = Inr [])"
  shows "load_history e (initial_controller store) = Inr (initial_controller store)
       \<and> summaryHistory (initial_controller store) = []
       \<and> error (initial_controller store) = None"
  using assms
  by (auto simp: load_history_def initial_controller_def)

theorem load_history_empty_or_missing_witness:
  "load_history example_env (initial_controller Map.empty) = Inr (initial_controller Map.empty)
   \<and> load_history example_env (initial_controller [history_key \<mapsto> []])
       = Inr (initial_controller [history_key \<mapsto> []])
   \<and> load_history example_env (initial_controller [history_key \<mapsto> ''[]''])
       = Inr (initial_controller [history_key \<mapsto> ''[]''])"
  using load_history_empty_or_missing [of Map.empty example_env]
        load_history_empty_or_missing [of "[history_key \<mapsto> []]" example_env]
        load_history_empty_or_missing [of "[history_key \<mapsto> ''[]'']" example_env]
  by (simp add: example_env_def)

section \<open>Stopping\<close>

text \<open>
  The handlers are taken to run to completion: no other handler runs at their \<open>await\<close>s.
\<close>

text \<open>
  Claim C6.  Calling \<open>stopRecording\<close> when no recording session is active (the recorder
  ref is null or the recorder is inactive) returns at once: every piece of controller state
  (recording flags, transcript, summary, history, error slot, storage) is what it was, and
  no error is raised or stored.  This holds for the closure of any render.
\<close>

theorem stopRecording_inactive_noop:
  assumes "mediaRecorderRef s = None \<or>
           (\<exists>mr. mediaRecorderRef s = Some mr \<and> rec_state mr = Inactive)"
  shows "stopRecording e snap s = s"
  using assms by (auto simp: stopRecording_def)

theorem stopRecording_inactive_noop_witness:
  "stopRecording example_env example_recording (initial_controller Map.empty)
     = initial_controller Map.empty
   \<and> error (stopRecording example_env example_recording (initial_controller Map.empty)) = None"
  using stopRecording_inactive_noop
          [of "initial_controller Map.empty" example_env example_recording]
  by (simp add: initial_controller_def)

text \<open>
  The earlier variant has no such guard.  On an idle controller its \<open>stopRecording\<close>
  changes nothing when the transcript of the calling render is blank, as it is for its one
  call site outside a session, the unmount cleanup, which is a closure of the first render;
  with a transcript left from a session it would summarize that transcript again.
\<close>

lemma legacy_stopRecording_idle:
  assumes "\<not> l_isRecording s" "\<not> l_isPaused s" "l_startTime s = None"
      and "l_recognitionRef s = None \<or> l_recognitionRef s = Some False"
      and "l_mediaRecorderRef s = None \<or>
           (\<exists>mr. l_mediaRecorderRef s = Some mr \<and> rec_state mr = Inactive)"
      and "trim (l_transcript snap) = []"
  shows "legacy_stopRecording e snap s = s"
  using assms by (auto simp: legacy_stopRecording_def Let_def)

lemma legacy_stopRecording_resummarizes:
  assumes "trim (l_transcript snap) \<noteq> []"
      and "summarizeMeeting e (l_transcript snap) = Inr meetingSummary"
  shows "l_summaryHistory (legacy_stopRecording e snap s)
           = newSummary e (l_duration snap) meetingSummary (l_transcript snap)
             # l_summaryHistory snap"
  using assms by (simp add: legacy_stopRecording_def Let_def)

text \<open>
  Claim C5.  When \<open>stop\<close> is called on an active session and either no chunk was captured
  or the concatenated artifact is smaller than 1000 bytes, the error slot receives the
  empty-recording message of that case, the recording flags are cleared, the handler leaves
  no transcription or summarization pending, and it calls neither remote client; history
  and storage stay as they were.
\<close>

theorem stop_empty_recording:
  assumes active: "mediaRecorderRef s = Some mr" "rec_state mr \<noteq> Inactive"
      and stopped: "recorder_stop e = None"
      and small: "audioChunksRef s = [] \<or>
                  blob_size (new_Blob (audioChunksRef s) (mime_or_webm (mimeType mr))) < 1000"
  shows "error (stop e s) =
           Some (if audioChunksRef s = [] then no_audio_message else too_short_message)
       \<and> \<not> isRecording (stop e s) \<and> \<not> isPaused (stop e s)
       \<and> (transcribing (stop e s) \<longrightarrow> transcribing s)
       \<and> (loading (stop e s) \<longrightarrow> loading s)
       \<and> calls (stop e s) = calls s
       \<and> summaryHistory (stop e s) = summaryHistory s
       \<and> localStorage (stop e s) = localStorage s"
  using assms
  by (auto simp: stop_def stopRecording_def process_audio_def Let_def err_message_def
                 blob_size_def new_Blob_def)

theorem stop_empty_recording_witness:
  "error (stop example_env short_recording) = Some too_short_message
   \<and> \<not> isRecording (stop example_env short_recording)
   \<and> \<not> transcribing (stop example_env short_recording)
   \<and> calls (stop example_env short_recording) = []"
proof -
  have env: "recorder_stop example_env = None"
    by (simp add: example_env_def)
  show ?thesis
    using stop_empty_recording
            [of short_recording
                "\<lparr>rec_state = Recording, mimeType = ''audio/webm'', tracks_live = True\<rparr>"
                example_env]
          env
    by (simp add: short_recording_def example_recording_def initial_controller_def chunk_def
                  new_Blob_def blob_size_def mime_or_webm_def)
qed

section \<open>Transcription\<close>

text \<open>
  A failure inside \<open>transcribeAudio\<close> whose message holds a recognised pattern is thrown on
  to the caller, with the message of that pattern.
\<close>

lemma transcribeAudio_recognized_throws:
  assumes "transcribeAudio_try e audioBlob = Inl (Error m)"
      and "recognized (toLowerCase m) = Some replacement"
  shows "transcribeAudio e audioBlob = Inl (Error replacement)"
  using assms by (simp add: transcribeAudio_def transcribeAudio_catch_def)

text \<open>
  Claim C3, as stated, fails: a failure of the transcription step that the Hugging Face
  client returns as text does not stop the run.  Here the provider call fails with the
  network error \<open>Failed to fetch\<close>, which holds none of the recognised patterns; the client
  returns \<open>Transcription failed: Failed to fetch\<close>, and the controller sets no error,
  calls the summarization client on that text and stores a record with it.
\<close>

theorem network_failure_reaches_summarization:
  "calls (stop fetch_failed_env example_recording)
     = [TranscribeHF (Blob (replicate 1200 0) ''audio/webm''),
        Summarize ''Transcription failed: Failed to fetch'']
   \<and> error (stop fetch_failed_env example_recording) = None
   \<and> map ms_transcript (summaryHistory (stop fetch_failed_env example_recording))
       = [''Transcription failed: Failed to fetch'']"
proof -
  have pat: "recognized (toLowerCase ''Failed to fetch'') = None"
    by (simp add: recognized_def toLowerCase_def lower_char_def)
  show ?thesis
    using pat
    by (simp add: run_defs client_defs fetch_failed_env_def example_env_def
                  example_recording_def initial_controller_def chunk_def
                  replicate_add [symmetric])
qed

text \<open>
  Claim C3, amended.  When the selected transcription client throws to the controller (its
  key is missing, or a failure whose message holds a recognised pattern: API key, 429, 413,
  400, 404, 401, network, timeout) or returns a blank text, then, for the closure of any
  render, the error slot receives the message of the failure, the controller is idle, the
  summarization client is not called, the captured chunks and the audio URL are untouched
  (and the recorder's \<open>onstop\<close> handler publishes the artifact for playback), and
  transcript, summary, history and storage are unchanged.
\<close>

theorem stop_transcription_failure:
  assumes active: "mediaRecorderRef s = Some mr" "rec_state mr \<noteq> Inactive"
      and stopped: "recorder_stop e = None"
      and artifact: "audioBlob = new_Blob (audioChunksRef s) (mime_or_webm (mimeType mr))"
                    "1000 \<le> blob_size audioBlob"
      and outcome: "transcribe_selected e (speechService snap) audioBlob = (result, issued)"
      and failed: "case result of Inl err \<Rightarrow> True | Inr text \<Rightarrow> text = [] \<or> trim text = []"
      and after: "s' = stopRecording e snap s"
  shows "error s' =
           Some (case result of
                   Inl err \<Rightarrow> err_message err ''Failed to process audio''
                 | Inr text \<Rightarrow> no_transcription_message)
       \<and> \<not> isRecording s' \<and> \<not> isPaused s' \<and> \<not> transcribing s' \<and> \<not> loading s'
       \<and> calls s' = calls s @ issued \<and> (\<forall>text. Summarize text \<notin> set issued)
       \<and> audioChunksRef s' = audioChunksRef s
       \<and> audioURL s' = audioURL s
       \<and> audioURL (onstop e (mimeType mr) s') = Some (createObjectURL e audioBlob)
       \<and> summaryHistory s' = summaryHistory s
       \<and> localStorage s' = localStorage s
       \<and> transcript s' = transcript s \<and> summary s' = summary s"
proof -
  have chunks: "audioChunksRef s \<noteq> []"
    using artifact artifact_has_chunks by blast
  have issued: "\<forall>text. Summarize text \<notin> set issued"
    using outcome issued_no_summarize by blast
  have rest: "?thesis" if "\<forall>text. Summarize text \<notin> set issued"
    using assms chunks that
    by (cases result)
       (auto simp: stopRecording_def process_audio_def onstop_def Let_def err_message_def)
  show ?thesis using rest issued by blast
qed

theorem stop_transcription_failure_witness:
  "error (stop rate_limited_env example_recording)
     = Some ''Too many requests to Hugging Face API. Please try again later.''
   \<and> \<not> isRecording (stop rate_limited_env example_recording)
   \<and> calls (stop rate_limited_env example_recording)
       = [TranscribeHF (Blob (replicate 1200 0) ''audio/webm'')]
   \<and> audioChunksRef (stop rate_limited_env example_recording) = [chunk 400, chunk 400, chunk 400]
   \<and> summaryHistory (stop rate_limited_env example_recording) = []"
proof -
  let ?b = "Blob (replicate 1200 0) ''audio/webm''"
  let ?mr = "\<lparr>rec_state = Recording, mimeType = ''audio/webm'', tracks_live = True\<rparr>"
  let ?thrown = "Error ''Too many requests to Hugging Face API. Please try again later.''"
  have tried: "transcribeAudio_try rate_limited_env ?b = Inl (Error ''429 Too Many Requests'')"
    by (simp add: client_defs rate_limited_env_def example_env_def)
  have pat: "recognized (toLowerCase ''429 Too Many Requests'')
               = Some ''Too many requests to Hugging Face API. Please try again later.''"
    by (simp add: recognized_def toLowerCase_def lower_char_def)
  have sel: "transcribe_selected rate_limited_env Huggingface ?b = (Inl ?thrown, [TranscribeHF ?b])"
    using transcribeAudio_recognized_throws [OF tried pat]
    by (simp add: transcribe_selected_def rate_limited_env_def example_env_def truthy_def)
  have env: "recorder_stop rate_limited_env = None"
    by (simp add: rate_limited_env_def example_env_def)
  show ?thesis
    using stop_transcription_failure
            [of example_recording ?mr rate_limited_env ?b example_recording "Inl ?thrown"
                "[TranscribeHF ?b]" "stop rate_limited_env example_recording"]
          sel env example_blob example_recorder
    by (simp add: blob_size_def err_message_def stop_def)
qed

text \<open>
  Claim C9, as stated, fails on the Google path: when the Google client returns an empty
  text, the controller throws and catches its own error, so the message lands in the error
  slot as a failure of the transcription step, and nothing is shown as a transcript.
\<close>

theorem google_blank_result_is_error:
  "error (stop google_silent_env google_recording) = Some no_transcription_message
   \<and> transcript (stop google_silent_env google_recording) = []
   \<and> calls (stop google_silent_env google_recording)
       = [TranscribeGoogle (Blob (replicate 1200 0) ''audio/webm'')]"
  by (simp add: run_defs client_defs google_silent_env_def example_env_def
                google_recording_def example_recording_def initial_controller_def chunk_def
                replicate_add [symmetric])

text \<open>
  Claim C9, amended.  When the Hugging Face provider returns an empty (blank) recognised
  text, the client replaces it by the no-speech sentence and returns that as text; for the
  closure of any render that selects Hugging Face, the controller shows the sentence as the
  transcript, the error slot afterwards depends on the summarization stage alone (it is
  empty when summarization returns), the controller is idle, and the session keeps its
  audio: the chunks and the audio URL are untouched and the recorder's \<open>onstop\<close> handler
  publishes the artifact.
\<close>

theorem empty_transcription_is_soft:
  assumes active: "mediaRecorderRef s = Some mr" "rec_state mr \<noteq> Inactive"
      and stopped: "recorder_stop e = None"
      and artifact: "audioBlob = new_Blob (audioChunksRef s) (mime_or_webm (mimeType mr))"
                    "1000 \<le> blob_size audioBlob"
      and service: "speechService snap = Huggingface" "truthy (VITE_HUGGINGFACE_API_KEY e)"
      and empty: "blobToBase64 e audioBlob = Inr base64Audio"
                 "automaticSpeechRecognition e base64Audio = Inr (Some text)"
                 "trim text = []"
      and after: "s' = stopRecording e snap s"
  shows "transcribeAudio e audioBlob = Inr no_speech_message
       \<and> transcript s' = no_speech_message
       \<and> error s' =
           (if \<not> truthy (VITE_GEMINI_API_KEY e)
            then Some ''Google Gemini API key is not set. Please add your API key to the .env file.''
            else case summarizeMeeting e no_speech_message of
                   Inl err \<Rightarrow> Some (err_message err ''Failed to generate summary'')
                 | Inr meetingSummary \<Rightarrow> None)
       \<and> \<not> isRecording s' \<and> \<not> isPaused s' \<and> \<not> transcribing s' \<and> \<not> loading s'
       \<and> audioChunksRef s' = audioChunksRef s
       \<and> audioURL s' = audioURL s
       \<and> audioURL (onstop e (mimeType mr) s') = Some (createObjectURL e audioBlob)"
proof -
  have chunks: "audioChunksRef s \<noteq> []"
    using artifact artifact_has_chunks by blast
  have size: "\<not> blob_size audioBlob < 1000" "blob_size audioBlob \<noteq> 0"
    using artifact(2) by auto
  note nb = no_speech_message_nonblank
  have client: "transcribeAudio e audioBlob = Inr no_speech_message"
    using service empty size
    by (simp add: transcribeAudio_def transcribeAudio_try_def getHfClient_def)
  then have sel: "transcribe_selected e Huggingface audioBlob
                   = (Inr no_speech_message, [TranscribeHF audioBlob])"
    using service(2) by (simp add: transcribe_selected_def)
  show ?thesis
    using active stopped artifact chunks size service(1) client sel nb after
    by (cases "summarizeMeeting e no_speech_message")
       (simp_all add: stopRecording_def process_audio_def generate_summary_def
                      onstop_def Let_def err_message_def)
qed

theorem empty_transcription_is_soft_witness:
  "transcript (stop silent_env example_recording) = no_speech_message
   \<and> error (stop silent_env example_recording) = None
   \<and> audioChunksRef (stop silent_env example_recording) = [chunk 400, chunk 400, chunk 400]
   \<and> audioURL (onstop silent_env ''audio/webm'' (stop silent_env example_recording))
       = Some ''blob:audio''"
proof -
  let ?b = "Blob (replicate 1200 0) ''audio/webm''"
  let ?mr = "\<lparr>rec_state = Recording, mimeType = ''audio/webm'', tracks_live = True\<rparr>"
  have env: "recorder_stop silent_env = None" "truthy (VITE_HUGGINGFACE_API_KEY silent_env)"
            "truthy (VITE_GEMINI_API_KEY silent_env)"
            "blobToBase64 silent_env ?b = Inr ''QUJD''"
            "automaticSpeechRecognition silent_env ''QUJD'' = Inr (Some ''  '')"
            "summarizeMeeting silent_env no_speech_message = Inr ''Team discussed hello world.''"
            "createObjectURL silent_env ?b = ''blob:audio''"
            "trim ''  '' = []"
    by (simp_all add: silent_env_def example_env_def client_defs)
  show ?thesis
    using empty_transcription_is_soft
            [of example_recording ?mr silent_env ?b example_recording "''QUJD''" "''  ''"
                "stop silent_env example_recording"]
          env example_recorder example_blob
    by (simp add: blob_size_def stop_def)
qed

text \<open>
  Claim C10.  When the \<open>try\<close> block of \<open>transcribeAudio\<close> fails with an \<open>Error\<close> whose
  lower-cased message holds none of the recognised patterns (the eight branches for API key,
  429, 413, 400, 404, 401, network and timeout), the function does not throw: it returns the
  string \<open>Transcription failed: \<close> followed by the message, and for a thrown value that is
  not an \<open>Error\<close> it returns the fallback sentence.  The caller takes that string for a
  transcript: the Stop handler shows it as the transcript and sends it to summarization.
\<close>

theorem transcribeAudio_unrecognized_returns_text:
  assumes failure: "transcribeAudio_try e audioBlob = Inl err"
      and unrecognized:
        "case err of Error m \<Rightarrow> recognized (toLowerCase m) = None | NonError \<Rightarrow> True"
      and shown: "text = (case err of
                   Error m \<Rightarrow> ''Transcription failed: '' @ m
                 | NonError \<Rightarrow>
                     ''Failed to transcribe audio. Please try again with a different recording.'')"
  shows "transcribeAudio e audioBlob = Inr text
       \<and> (\<forall>s mr. mediaRecorderRef s = Some mr \<and> rec_state mr \<noteq> Inactive
                 \<and> recorder_stop e = None
                 \<and> new_Blob (audioChunksRef s) (mime_or_webm (mimeType mr)) = audioBlob
                 \<and> 1000 \<le> blob_size audioBlob
                 \<and> speechService s = Huggingface
                 \<and> truthy (VITE_HUGGINGFACE_API_KEY e) \<and> truthy (VITE_GEMINI_API_KEY e)
             \<longrightarrow> transcript (stop e s) = text
               \<and> calls (stop e s) = calls s @ [TranscribeHF audioBlob, Summarize text])"
proof -
  have returned: "transcribeAudio e audioBlob = Inr text"
    using assms by (cases err) (simp_all add: transcribeAudio_def transcribeAudio_catch_def)
  have nonblank: "text \<noteq> [] \<and> trim text \<noteq> []"
    unfolding shown by (cases err) (simp_all add: trim_nonblank is_space_def)
  have caller: "transcript (stop e s) = text
              \<and> calls (stop e s) = calls s @ [TranscribeHF audioBlob, Summarize text]"
    if "mediaRecorderRef s = Some mr" "rec_state mr \<noteq> Inactive" "recorder_stop e = None"
       "new_Blob (audioChunksRef s) (mime_or_webm (mimeType mr)) = audioBlob"
       "1000 \<le> blob_size audioBlob" "speechService s = Huggingface"
       "truthy (VITE_HUGGINGFACE_API_KEY e)" "truthy (VITE_GEMINI_API_KEY e)"
    for s mr
  proof -
    have chunks: "audioChunksRef s \<noteq> []"
      using that(4,5) artifact_has_chunks by blast
    show ?thesis
      using that chunks returned nonblank
      by (cases "summarizeMeeting e text")
         (simp_all add: stop_def stopRecording_def process_audio_def transcribe_selected_def
                        generate_summary_def Let_def)
  qed
  show ?thesis
    using returned caller by blast
qed

theorem transcribeAudio_unrecognized_returns_text_witness:
  "transcribeAudio unreadable_env (Blob (replicate 1200 0) ''audio/webm'')
     = Inr ''Transcription failed: Failed to read audio file''
   \<and> transcript (stop unreadable_env example_recording)
     = ''Transcription failed: Failed to read audio file''"
proof -
  let ?b = "Blob (replicate 1200 0) ''audio/webm''"
  let ?t = "''Transcription failed: Failed to read audio file''"
  have tried: "transcribeAudio_try unreadable_env ?b = Inl (Error ''Failed to read audio file'')"
    by (simp add: client_defs unreadable_env_def example_env_def)
  have pat: "recognized (toLowerCase ''Failed to read audio file'') = None"
    by (simp add: recognized_def toLowerCase_def lower_char_def)
  have env: "recorder_stop unreadable_env = None"
            "truthy (VITE_HUGGINGFACE_API_KEY unreadable_env)"
            "truthy (VITE_GEMINI_API_KEY unreadable_env)"
    by (simp_all add: unreadable_env_def example_env_def truthy_def)
  from transcribeAudio_unrecognized_returns_text
         [of unreadable_env ?b "Error ''Failed to read audio file''" ?t]
       tried pat
  have "transcribeAudio unreadable_env ?b = Inr ?t
      \<and> (\<forall>s mr. mediaRecorderRef s = Some mr \<and> rec_state mr \<noteq> Inactive
                 \<and> recorder_stop unreadable_env = None
                 \<and> new_Blob (audioChunksRef s) (mime_or_webm (mimeType mr)) = ?b
                 \<and> 1000 \<le> blob_size ?b
                 \<and> speechService s = Huggingface
                 \<and> truthy (VITE_HUGGINGFACE_API_KEY unreadable_env)
                 \<and> truthy (VITE_GEMINI_API_KEY unreadable_env)
             \<longrightarrow> transcript (stop unreadable_env s) = ?t
               \<and> calls (stop unreadable_env s) = calls s @ [TranscribeHF ?b, Summarize ?t])"
    by simp
  then show ?thesis
    using env example_recorder example_blob by (auto simp: blob_size_def)
qed

section \<open>Summarization and the history\<close>

text \<open>
  What a successful run of \<open>stopRecording\<close> writes, for the closure of any render
  \<open>snap\<close>: the record carries the duration of that render and is consed on the history of
  that render, and that list is what is persisted.
\<close>

lemma stopRecording_record:
  assumes "mediaRecorderRef s = Some mr" "rec_state mr \<noteq> Inactive" "recorder_stop e = None"
      and "audioBlob = new_Blob (audioChunksRef s) (mime_or_webm (mimeType mr))"
          "1000 \<le> blob_size audioBlob"
      and "transcribe_selected e (speechService snap) audioBlob = (Inr text, issued)"
          "trim text \<noteq> []"
      and "truthy (VITE_GEMINI_API_KEY e)" "summarizeMeeting e text = Inr meetingSummary"
  shows "summaryHistory (stopRecording e snap s)
           = newSummary e (duration snap) meetingSummary text # summaryHistory snap"
proof -
  have chunks: "audioChunksRef s \<noteq> []"
    using assms(4,5) artifact_has_chunks by blast
  have nonempty: "text \<noteq> []"
    using assms(7) by auto
  show ?thesis
    using assms chunks nonempty
    by (simp add: stopRecording_def process_audio_def generate_summary_def Let_def)
qed

lemma stopRecording_success:
  assumes active: "mediaRecorderRef s = Some mr" "rec_state mr \<noteq> Inactive"
      and stopped: "recorder_stop e = None"
      and artifact: "audioBlob = new_Blob (audioChunksRef s) (mime_or_webm (mimeType mr))"
                    "1000 \<le> blob_size audioBlob"
      and transcribed: "transcribe_selected e (speechService snap) audioBlob = (Inr text, issued)"
                       "trim text \<noteq> []"
      and key: "truthy (VITE_GEMINI_API_KEY e)"
      and summarized: "summarizeMeeting e text = Inr meetingSummary"
      and built: "r = newSummary e (duration snap) meetingSummary text"
      and after: "s' = stopRecording e snap s"
  shows "summaryHistory s' = r # summaryHistory snap
       \<and> ms_transcript r = text \<and> ms_summary r = meetingSummary
       \<and> localStorage s' history_key = Some (JSON_stringify e (r # summaryHistory snap))
       \<and> summary s' = Some meetingSummary
       \<and> transcript s' = text
       \<and> error s' = None
       \<and> \<not> isRecording s' \<and> \<not> isPaused s' \<and> \<not> transcribing s' \<and> \<not> loading s'"
proof -
  have chunks: "audioChunksRef s \<noteq> []"
    using artifact artifact_has_chunks by blast
  have nonempty: "text \<noteq> []"
    using transcribed(2) by auto
  show ?thesis
    using assms chunks nonempty
    by (simp add: stopRecording_def process_audio_def generate_summary_def
                  newSummary_def Let_def)
qed

text \<open>
  For the Stop button, whose handler is the closure of the current render, this is one new
  record in front of the current history, and the whole new list in storage.
\<close>

lemma stop_button_success:
  assumes "mediaRecorderRef s = Some mr" "rec_state mr \<noteq> Inactive" "recorder_stop e = None"
      and "audioBlob = new_Blob (audioChunksRef s) (mime_or_webm (mimeType mr))"
          "1000 \<le> blob_size audioBlob"
      and "transcribe_selected e (speechService s) audioBlob = (Inr text, issued)"
          "trim text \<noteq> []"
      and "truthy (VITE_GEMINI_API_KEY e)" "summarizeMeeting e text = Inr meetingSummary"
      and "r = newSummary e (duration s) meetingSummary text"
  shows "summaryHistory (stop e s) = r # summaryHistory s
       \<and> localStorage (stop e s) history_key = Some (JSON_stringify e (r # summaryHistory s))
       \<and> summary (stop e s) = Some meetingSummary \<and> transcript (stop e s) = text
       \<and> error (stop e s) = None"
  using stopRecording_success [OF assms(1-6) assms(7-10), of "stop e s"]
  by (simp add: stop_def)

lemma testWithSampleText_record:
  assumes "apiStatus_gemini snap" "summarizeMeeting e sampleText = Inr meetingSummary"
  shows "summaryHistory (testWithSampleText e snap s)
           = newSummary e 300 meetingSummary sampleText # summaryHistory snap"
  using assms by (simp add: testWithSampleText_def generate_summary_def Let_def)

text \<open>
  Claim C1 does not hold of the code on every run.  The Stop button does what the claim
  says, but the unmount cleanup, which also stops an active session, runs the
  \<open>stopRecording\<close> of the first render, where the history is still empty: with one
  earlier record loaded, an unmount during a recording that transcribes and summarizes
  successfully leaves a history of the new record alone and overwrites the persisted list
  with it, so the earlier record is lost (and the new record has duration 0).  The Stop
  button on the same state puts the new record in front of the earlier one.
\<close>

theorem unmount_cleanup_replaces_history:
  "summaryHistory loaded_recording = [old_record]
   \<and> localStorage loaded_recording history_key = Some ''5000''
   \<and> summaryHistory (unmount_cleanup example_env loaded_recording)
       = [newSummary example_env 0 ''Team discussed hello world.'' ''hello world'']
   \<and> localStorage (unmount_cleanup example_env loaded_recording) history_key = Some ''12000''
   \<and> summaryHistory (stop example_env loaded_recording)
       = [newSummary example_env 12 ''Team discussed hello world.'' ''hello world'', old_record]
   \<and> localStorage (stop example_env loaded_recording) history_key = Some ''120005000''"
proof -
  have clock: "toString 12000 = ''12000''"
    by (simp add: toString_def digits.simps digit_char_def)
  show ?thesis
    by (simp add: unmount_cleanup_def first_render_def run_defs client_defs loaded_recording_def
                  old_record_def example_env_def example_recording_def initial_controller_def
                  chunk_def clock)
qed

text \<open>
  Claim C2.  When transcription succeeds and the summarization call fails, then, for the
  closure of any render, the history and its persisted copy are unchanged (no record is
  added), the transcript produced by transcription is shown, the error slot holds the
  message of the failure, and the controller is idle.
\<close>

theorem stop_summarization_failure_keeps_history:
  assumes active: "mediaRecorderRef s = Some mr" "rec_state mr \<noteq> Inactive"
      and stopped: "recorder_stop e = None"
      and artifact: "audioBlob = new_Blob (audioChunksRef s) (mime_or_webm (mimeType mr))"
                    "1000 \<le> blob_size audioBlob"
      and transcribed: "transcribe_selected e (speechService snap) audioBlob = (Inr text, issued)"
                       "trim text \<noteq> []"
      and key: "truthy (VITE_GEMINI_API_KEY e)"
      and failed: "summarizeMeeting e text = Inl err"
      and after: "s' = stopRecording e snap s"
  shows "summaryHistory s' = summaryHistory s
       \<and> localStorage s' = localStorage s
       \<and> transcript s' = text
       \<and> error s' = Some (err_message err ''Failed to generate summary'')
       \<and> summary s' = summary s
       \<and> \<not> isRecording s' \<and> \<not> isPaused s' \<and> \<not> transcribing s' \<and> \<not> loading s'"
proof -
  have chunks: "audioChunksRef s \<noteq> []"
    using artifact artifact_has_chunks by blast
  have nonempty: "text \<noteq> []"
    using transcribed(2) by auto
  show ?thesis
    using assms chunks nonempty
    by (simp add: stopRecording_def process_audio_def generate_summary_def Let_def)
qed

theorem stop_summarization_failure_keeps_history_witness:
  "summaryHistory (stop failing_summary_env example_recording) = []
   \<and> localStorage (stop failing_summary_env example_recording) history_key = None
   \<and> transcript (stop failing_summary_env example_recording) = ''hello world''
   \<and> error (stop failing_summary_env example_recording) = Some ''quota exceeded''"
proof -
  let ?mr = "\<lparr>rec_state = Recording, mimeType = ''audio/webm'', tracks_live = True\<rparr>"
  let ?b = "Blob (replicate 1200 0) ''audio/webm''"
  have env: "transcribe_selected failing_summary_env Huggingface ?b
               = (Inr ''hello world'', [TranscribeHF ?b])"
            "recorder_stop failing_summary_env = None"
            "truthy (VITE_GEMINI_API_KEY failing_summary_env)"
            "summarizeMeeting failing_summary_env ''hello world'' = Inl (Error ''quota exceeded'')"
            "trim ''hello world'' \<noteq> []"
    by (simp_all add: client_defs failing_summary_env_def example_env_def)
  show ?thesis
    using stop_summarization_failure_keeps_history
            [of example_recording ?mr failing_summary_env ?b example_recording "''hello world''"
                "[TranscribeHF ?b]" "Error ''quota exceeded''"
                "stop failing_summary_env example_recording"]
          env example_blob example_recorder
    by (simp add: blob_size_def err_message_def stop_def)
       (simp add: example_recording_def initial_controller_def)
qed

text \<open>
  Claim C8, as stated, fails: the identifier of a record is the decimal rendering of the
  millisecond clock read when the record is built, so two distinct records built at the same
  clock reading carry the same identifier.  Here a record made by the Stop handler and a
  record made by the sample-text handler differ (in duration and transcript) and share the
  identifier.
\<close>

theorem same_clock_reading_same_id:
  "summaryHistory two_in_one_ms
     = [newSummary example_env 300 ''Team discussed hello world.'' sampleText,
        newSummary example_env 12 ''Team discussed hello world.'' ''hello world'']
   \<and> newSummary example_env 300 ''Team discussed hello world.'' sampleText
       \<noteq> newSummary example_env 12 ''Team discussed hello world.'' ''hello world''
   \<and> ms_id (newSummary example_env 300 ''Team discussed hello world.'' sampleText)
       = ms_id (newSummary example_env 12 ''Team discussed hello world.'' ''hello world'')"
proof -
  let ?mr = "\<lparr>rec_state = Recording, mimeType = ''audio/webm'', tracks_live = True\<rparr>"
  let ?b = "Blob (replicate 1200 0) ''audio/webm''"
  have env: "transcribe_selected example_env Huggingface ?b
               = (Inr ''hello world'', [TranscribeHF ?b])"
            "recorder_stop example_env = None"
            "truthy (VITE_GEMINI_API_KEY example_env)"
            "summarizeMeeting example_env ''hello world'' = Inr ''Team discussed hello world.''"
            "summarizeMeeting example_env sampleText = Inr ''Team discussed hello world.''"
            "trim ''hello world'' \<noteq> []"
    by (simp_all add: client_defs example_env_def)
  have first: "summaryHistory (stop example_env example_recording)
                 = [newSummary example_env 12 ''Team discussed hello world.'' ''hello world'']"
    using stopRecording_record
            [of example_recording ?mr example_env ?b example_recording "''hello world''"
                "[TranscribeHF ?b]" "''Team discussed hello world.''"]
          env example_blob example_recorder
    by (simp add: stop_def blob_size_def)
  have gemini: "apiStatus_gemini (stop example_env example_recording)"
    by (simp add: run_defs client_defs example_recording_def initial_controller_def
                  example_env_def chunk_def)
  have "summaryHistory two_in_one_ms
          = [newSummary example_env 300 ''Team discussed hello world.'' sampleText,
             newSummary example_env 12 ''Team discussed hello world.'' ''hello world'']"
    unfolding two_in_one_ms_def
    using testWithSampleText_record [OF gemini env(5)] first by simp
  then show ?thesis
    by (simp add: newSummary_def)
qed

text \<open>
  Claim C8, amended.  The identifiers of two records built by the controller are distinct
  exactly when the clock readings at which they were built are distinct.
\<close>

theorem record_ids_distinct_iff_clock_differs:
  "(ms_id (newSummary e1 d1 m1 t1) \<noteq> ms_id (newSummary e2 d2 m2 t2))
     = (Date_now e1 \<noteq> Date_now e2)"
  using toString_inj [of "Date_now e1" "Date_now e2"]
  by (auto simp: newSummary_def)

section \<open>The duration watchdog\<close>

text \<open>
  The interval exists only for a render that has a start time and is not paused; its
  callback stores the elapsed seconds and, from the ceiling on, calls the \<open>stopRecording\<close>
  of the render that installed it.  After a stop the start time is still set, so the
  interval keeps running, and each later call of \<open>stopRecording\<close> returns at the guard.
\<close>

lemma watchdog_not_installed_while_paused:
  "isPaused snap \<Longrightarrow> \<not> watchdog_installed snap \<and> watchdog_tick e snap now s = s"
  by (simp add: watchdog_installed_def watchdog_tick_def split: option.splits)

lemma pause_removes_watchdog:
  assumes "mediaRecorderRef s = Some mr" "rec_state mr = Recording" "recorder_pause e = None"
  shows "\<not> watchdog_installed (pauseRecording e s)"
  using assms by (simp add: pauseRecording_def watchdog_installed_def)

lemma resume_restores_watchdog:
  assumes "mediaRecorderRef s = Some mr" "rec_state mr = Paused" "recorder_resume e = None"
      and "startTime s \<noteq> None"
  shows "watchdog_installed (resumeRecording e s)"
  using assms by (simp add: resumeRecording_def watchdog_installed_def)

lemma watchdog_tick_below_ceiling:
  assumes "startTime snap = Some started" "\<not> isPaused snap"
      and "(now - started) div 1000 < maxRecordingDuration"
  shows "watchdog_tick e snap now s = s\<lparr>duration := (now - started) div 1000\<rparr>"
  using assms by (simp add: watchdog_tick_def Let_def)

lemma watchdog_tick_at_ceiling:
  assumes "startTime snap = Some started" "\<not> isPaused snap"
      and "maxRecordingDuration \<le> (now - started) div 1000"
  shows "watchdog_tick e snap now s
           = stopRecording e snap (s\<lparr>duration := (now - started) div 1000\<rparr>)"
  using assms by (simp add: watchdog_tick_def Let_def)

lemma watchdog_tick_after_stop:
  assumes "startTime snap = Some started" "\<not> isPaused snap"
      and "mediaRecorderRef s = Some mr" "rec_state mr = Inactive"
  shows "watchdog_tick e snap now s = s\<lparr>duration := (now - started) div 1000\<rparr>"
  using assms by (simp add: watchdog_tick_def stopRecording_def Let_def)

lemma session_start_eq:
  "session_start =
     (initial_controller Map.empty)
       \<lparr>mediaRecorderRef :=
          Some \<lparr>rec_state = Recording, mimeType = ''audio/webm'', tracks_live = True\<rparr>,
        isRecording := True, startTime := Some 0\<rparr>"
  by (simp add: session_start_def startRecording_def start_env_def example_env_def
                initial_controller_def choose_mimeType_def Let_def)

lemma session_at_999_eq:
  "session_at_999 =
     session_start\<lparr>audioChunksRef := [chunk 400, chunk 400, chunk 400], duration := 999\<rparr>"
  by (simp add: session_at_999_def session_start_eq watchdog_tick_def ondataavailable_def
                initial_controller_def chunk_def blob_size_def maxRecordingDuration_def Let_def)

text \<open>
  Claim C4 does not hold of the code.  In the first session after a mount the watchdog is
  installed by the render that follows \<open>startRecording\<close>, whose \<open>duration\<close> is 0.  At
  the tick of 1000 seconds the callback runs that render's \<open>stopRecording\<close>: the record it
  stores has duration 0.  The Stop button at the same instant runs the handler of the
  latest render, and the record has the duration shown then, 999.  The two final states
  differ.
\<close>

theorem autostop_records_stale_duration:
  "watchdog_installed session_start
   \<and> duration session_at_999 = 999
   \<and> map ms_duration
        (summaryHistory (watchdog_tick late_env session_start 1000000 session_at_999)) = [0]
   \<and> map ms_duration (summaryHistory (stop late_env session_at_999)) = [999]
   \<and> watchdog_tick late_env session_start 1000000 session_at_999 \<noteq> stop late_env session_at_999"
proof -
  have auto_stop:
    "map ms_duration
       (summaryHistory (watchdog_tick late_env session_start 1000000 session_at_999)) = [0]"
    by (simp add: session_at_999_eq session_start_eq watchdog_tick_def maxRecordingDuration_def
                  run_defs client_defs late_env_def example_env_def initial_controller_def
                  chunk_def)
  have manual: "map ms_duration (summaryHistory (stop late_env session_at_999)) = [999]"
    by (simp add: session_at_999_eq session_start_eq run_defs client_defs late_env_def
                  example_env_def initial_controller_def chunk_def)
  have installed: "watchdog_installed session_start \<and> duration session_at_999 = 999"
    by (simp add: session_at_999_eq session_start_eq watchdog_installed_def
                  initial_controller_def)
  from auto_stop manual
  have "watchdog_tick late_env session_start 1000000 session_at_999
          \<noteq> stop late_env session_at_999"
    by auto
  with auto_stop manual installed show ?thesis by simp
qed

end
